theory Spec2Isabelle
  imports Complex_Main
begin

section \<open>Numbers, errors and Python built-ins\<close>

text \<open>
  The loan-analysis pipeline of \<^verbatim>\<open>backend/agents\<close> computes with Python numbers.
  A Python \<^verbatim>\<open>float\<close> is modelled as an exact \<open>real\<close> and a Python \<^verbatim>\<open>int\<close> as an
  \<open>int\<close>; the conversion of an \<^verbatim>\<open>int\<close> to a \<^verbatim>\<open>float\<close> is \<open>of_int\<close>. The range and the
  rounding error of IEEE doubles (overflow, \<^verbatim>\<open>inf\<close>, \<^verbatim>\<open>nan\<close>) are therefore outside this
  model; every statement below is about exact arithmetic. The exceptions that exact
  arithmetic can raise in the source are values of \<open>error\<close>.
\<close>

datatype error = ZeroDivisionError | ValueError

text \<open>\<^verbatim>\<open>d.get(key, default)\<close> on a dictionary whose key may be missing.\<close>

definition dict_get :: "'a \<Rightarrow> 'a option \<Rightarrow> 'a" where
  "dict_get dflt v = (case v of None \<Rightarrow> dflt | Some x \<Rightarrow> x)"

text \<open>Sequencing of computations that may raise: the first exception wins.\<close>

definition bind_result :: "error + 'a \<Rightarrow> ('a \<Rightarrow> error + 'b) \<Rightarrow> error + 'b" where
  "bind_result r f = (case r of Inl e \<Rightarrow> Inl e | Inr x \<Rightarrow> f x)"

text \<open>
  Rounding to the nearest integer, ties to the even neighbour: what Python's
  \<^verbatim>\<open>round\<close> and its fixed-point formats do with the exact value.
\<close>

definition round_half_even :: "real \<Rightarrow> int" where
  "round_half_even y =
     (let f = \<lfloor>y\<rfloor>; d = y - of_int f
      in if d < 1 / 2 then f
         else if 1 / 2 < d then f + 1
         else if even f then f else f + 1)"

text \<open>\<^verbatim>\<open>round(x, ndigits)\<close> on a float.\<close>

definition py_round :: "real \<Rightarrow> nat \<Rightarrow> real" where
  "py_round x ndigits = of_int (round_half_even (x * 10 ^ ndigits)) / 10 ^ ndigits"

text \<open>\<^verbatim>\<open>int(x)\<close> on a float: truncation toward zero.\<close>

definition py_int :: "real \<Rightarrow> int" where
  "py_int x = (if 0 \<le> x then \<lfloor>x\<rfloor> else \<lceil>x\<rceil>)"

text \<open>
  \<^verbatim>\<open>math.pow(x, n)\<close> for an integer exponent: a zero base with a negative exponent is
  a \<^verbatim>\<open>ValueError\<close> (math domain error).
\<close>

definition math_pow :: "real \<Rightarrow> int \<Rightarrow> error + real" where
  "math_pow x n = (if x = 0 \<and> n < 0 then Inl ValueError else Inr (power_int x n))"

text \<open>\<^verbatim>\<open>numpy.mean\<close> and \<^verbatim>\<open>numpy.std(..., ddof=1)\<close> of a list with at least two entries.\<close>

definition np_mean :: "real list \<Rightarrow> real" where
  "np_mean xs = sum_list xs / real (length xs)"

definition np_std_ddof1 :: "real list \<Rightarrow> real" where
  "np_std_ddof1 xs =
     sqrt (sum_list (map (\<lambda>x. (x - np_mean xs)\<^sup>2) xs) / real (length xs - 1))"

subsection \<open>String formatting\<close>

definition digit_char :: "nat \<Rightarrow> char" where
  "digit_char d =
     (if d = 0 then CHR ''0'' else if d = 1 then CHR ''1'' else if d = 2 then CHR ''2''
      else if d = 3 then CHR ''3'' else if d = 4 then CHR ''4'' else if d = 5 then CHR ''5''
      else if d = 6 then CHR ''6'' else if d = 7 then CHR ''7'' else if d = 8 then CHR ''8''
      else CHR ''9'')"

fun str_nat :: "nat \<Rightarrow> string" where
  "str_nat n =
     (if n < 10 then [digit_char n] else str_nat (n div 10) @ [digit_char (n mod 10)])"

declare str_nat.simps [simp del]

text \<open>\<^verbatim>\<open>str(i)\<close> of an integer, as an f-string prints it.\<close>

definition str_int :: "int \<Rightarrow> string" where
  "str_int i = (if i < 0 then ''-'' @ str_nat (nat (- i)) else str_nat (nat i))"

text \<open>The last \<open>k\<close> decimal digits of \<open>n\<close>, padded with zeros on the left.\<close>

fun frac_digits :: "nat \<Rightarrow> nat \<Rightarrow> string" where
  "frac_digits 0 n = []"
| "frac_digits (Suc k) n = frac_digits k (n div 10) @ [digit_char (n mod 10)]"

text \<open>Groups of three digits separated by commas, as the \<^verbatim>\<open>,\<close> format option does.\<close>

fun group_thousands :: "nat \<Rightarrow> string" where
  "group_thousands n =
     (if n < 1000 then str_nat n
      else group_thousands (n div 1000) @ '','' @ frac_digits 3 (n mod 1000))"

declare group_thousands.simps [simp del]

text \<open>
  \<^verbatim>\<open>f"{x:.Nf}"\<close> and \<^verbatim>\<open>f"{x:,.Nf}"\<close>: the sign, the integer part (grouped or not), a point
  and \<open>N\<close> digits, rounded half to even.
\<close>

definition fmt_fixed :: "bool \<Rightarrow> nat \<Rightarrow> real \<Rightarrow> string" where
  "fmt_fixed grouped nd x =
     (let c = nat (round_half_even (\<bar>x\<bar> * 10 ^ nd));
          ip = c div 10 ^ nd;
          fp = c mod 10 ^ nd
      in (if x < 0 then ''-'' else '''')
         @ (if grouped then group_thousands ip else str_nat ip)
         @ ''.'' @ frac_digits nd fp)"

text \<open>\<^verbatim>\<open>f"{x:.1%}"\<close>.\<close>

definition fmt_percent1 :: "real \<Rightarrow> string" where
  "fmt_percent1 x = fmt_fixed False 1 (x * 100) @ ''%''"

section \<open>Financial analyzer (\<^verbatim>\<open>agents/financial_analyzer.py\<close>)\<close>

definition calculate_avg_monthly_revenue :: "real list \<Rightarrow> real" where
  "calculate_avg_monthly_revenue monthly_deposits =
     (if monthly_deposits = [] then 0
      else py_round (sum_list monthly_deposits / real (length monthly_deposits)) 2)"

definition calculate_revenue_volatility :: "real list \<Rightarrow> real" where
  "calculate_revenue_volatility monthly_revenue =
     (if monthly_revenue = [] \<or> length monthly_revenue \<le> 1 then 0
      else let mean = np_mean monthly_revenue
           in if mean = 0 then 0
              else py_round (np_std_ddof1 monthly_revenue / mean) 4)"

text \<open>
  The amortization formula. \<^verbatim>\<open>math.pow\<close> is called for the numerator and again for
  the denominator; the division \<^verbatim>\<open>numerator / denominator\<close> raises when the
  denominator is zero.
\<close>

definition calculate_monthly_payment :: "real \<Rightarrow> real \<Rightarrow> int \<Rightarrow> error + real" where
  "calculate_monthly_payment loan_amt annual_rate n_months =
     (if loan_amt = 0 \<or> n_months = 0 then Inr 0
      else if annual_rate = 0 then Inr (py_round (loan_amt / of_int n_months) 2)
      else
        let monthly_rate = annual_rate / 12
        in bind_result (math_pow (1 + monthly_rate) n_months) (\<lambda>p1.
           let numerator = monthly_rate * p1
           in bind_result (math_pow (1 + monthly_rate) n_months) (\<lambda>p2.
              let denominator = p2 - 1
              in if denominator = 0 then Inl ZeroDivisionError
                 else Inr (py_round (loan_amt * (numerator / denominator)) 2))))"

definition calculate_dscr :: "real \<Rightarrow> real \<Rightarrow> real \<Rightarrow> int \<Rightarrow> error + real" where
  "calculate_dscr monthly_cash_flow loan_amt annual_rate n_months =
     bind_result (calculate_monthly_payment loan_amt annual_rate n_months) (\<lambda>monthly_payment.
       if monthly_payment = 0 then Inr 0
       else Inr (py_round (monthly_cash_flow / monthly_payment) 2))"

definition calculate_debt_to_revenue_ratio :: "real \<Rightarrow> real \<Rightarrow> real" where
  "calculate_debt_to_revenue_ratio debt revenue =
     (if revenue = 0 then 0 else py_round (debt / revenue) 2)"

text \<open>The four components of the stability score, as the source's local variables.\<close>

definition volatility_score :: "real \<Rightarrow> real" where
  "volatility_score vol = max 0 ((1 - min vol 1) * 40)"

definition age_score :: "int \<Rightarrow> real" where
  "age_score age = of_int (min age 10) / 10 * 30"

definition nsf_score :: "int \<Rightarrow> real" where
  "nsf_score nsf_count =
     (if nsf_count = 0 then 30
      else if nsf_count \<le> 2 then 20
      else if nsf_count \<le> 5 then 10
      else 0)"

definition trend_bonus :: "real \<Rightarrow> real" where
  "trend_bonus trend = trend * 10"

definition calculate_stability_score :: "real \<Rightarrow> int \<Rightarrow> int \<Rightarrow> real \<Rightarrow> int" where
  "calculate_stability_score vol age nsf_count trend =
     (let base_score = volatility_score vol + age_score age + nsf_score nsf_count;
          final_score = base_score + trend_bonus trend
      in py_int (max 0 (min 100 final_score)))"

subsection \<open>The dictionaries the agents exchange\<close>

text \<open>
  A dictionary is a record of the keys the code reads; a key that may be missing (read
  with \<^verbatim>\<open>.get(key, default)\<close>) is an \<open>option\<close>. The wrappers with a single key
  (\<^verbatim>\<open>{"metrics": ...}\<close>, \<^verbatim>\<open>{"risk_assessment": ...}\<close>, \<^verbatim>\<open>{"credit_memo_output": ...}\<close>)
  are left out: the agents always produce that key and their callers only unwrap it.
\<close>

record bank_data_rec =
  monthly_deposits :: "real list option"
  monthly_withdrawals :: "real list option"
  nsf_fees :: "int option"

record tax_data_rec =
  gross_revenue :: "real option"
  net_income :: "real option"

record extracted_data =
  bank_data :: "bank_data_rec option"
  tax_data :: "tax_data_rec option"
  existing_debt :: "real option"

record loan_request =
  loan_amount :: "real option"
  annual_interest_rate :: "real option"
  term_months :: "int option"
  business_age_years :: "int option"

text \<open>\<^verbatim>\<open>business_info\<close> has the loan request's keys and the two names.\<close>

record business_info = loan_request +
  business_name :: "string option"
  industry :: "string option"

text \<open>
  The metrics \<^verbatim>\<open>analyze\<close> returns. Their key \<^verbatim>\<open>net_income\<close> is the field
  \<open>metrics_net_income\<close>, the tax data having a key of that name already.
\<close>

record metrics =
  avg_monthly_revenue :: real
  revenue_volatility :: real
  avg_monthly_cash_flow :: real
  dscr :: real
  debt_to_revenue :: real
  annual_revenue :: real
  metrics_net_income :: real
  stability_score :: int
  total_debt :: real
  revenue_trend :: real

text \<open>The empty dictionary \<^verbatim>\<open>{}\<close> read as bank data and as tax data.\<close>

definition empty_bank_data :: bank_data_rec where
  "empty_bank_data = \<lparr>monthly_deposits = None, monthly_withdrawals = None, nsf_fees = None\<rparr>"

definition empty_tax_data :: tax_data_rec where
  "empty_tax_data = \<lparr>gross_revenue = None, net_income = None\<rparr>"

subsection \<open>\<^verbatim>\<open>FinancialAnalyzerAgent.analyze\<close>\<close>

text \<open>
  The revenue trend, computed inline by \<^verbatim>\<open>analyze\<close>: the mean of the first six deposits
  (\<^verbatim>\<open>monthly_deposits[:6]\<close>) against the mean of the next six (\<^verbatim>\<open>monthly_deposits[6:12]\<close>),
  when there are at least twelve.
\<close>

definition compute_revenue_trend :: "real list \<Rightarrow> real" where
  "compute_revenue_trend deposits =
     (if 12 \<le> length deposits then
        let first_half = sum_list (take 6 deposits) / 6;
            second_half = sum_list (take 6 (drop 6 deposits)) / 6
        in if 0 < first_half then (second_half - first_half) / first_half else 0
      else 0)"

definition analyze :: "extracted_data \<Rightarrow> 'a loan_request_scheme \<Rightarrow> error + metrics" where
  "analyze ed lr =
     (let bank = dict_get empty_bank_data (bank_data ed);
          deposits = dict_get [] (monthly_deposits bank);
          withdrawals = dict_get [] (monthly_withdrawals bank);
          nsf = dict_get 0 (nsf_fees bank);
          tax = dict_get empty_tax_data (tax_data ed);
          annual_rev = dict_get 0 (gross_revenue tax);
          net_inc = dict_get 0 (net_income tax);
          loan_amt = dict_get 0 (loan_amount lr);
          annual_rate = dict_get 0.08 (annual_interest_rate lr);
          n_months = dict_get 60 (term_months lr);
          age = dict_get 0 (business_age_years lr);
          debt = dict_get 0 (existing_debt ed);
          avg_revenue = calculate_avg_monthly_revenue deposits;
          volatility = calculate_revenue_volatility deposits;
          cash_flow =
            (if deposits \<noteq> [] \<and> withdrawals \<noteq> [] then
               sum_list deposits / real (length deposits)
               - sum_list withdrawals / real (length withdrawals)
             else 0)
      in bind_result (calculate_monthly_payment loan_amt annual_rate n_months)
           (\<lambda>new_loan_payment.
         bind_result (calculate_monthly_payment debt annual_rate n_months)
           (\<lambda>existing_debt_payment.
         let total_monthly_payment = new_loan_payment + existing_debt_payment;
             dscr_v =
               (if total_monthly_payment = 0 then 0
                else py_round (cash_flow / total_monthly_payment) 2);
             total = debt + loan_amt;
             revenue_for_ratio = (if 0 < annual_rev then annual_rev else avg_revenue * 12);
             ratio = calculate_debt_to_revenue_ratio total revenue_for_ratio;
             trend = compute_revenue_trend deposits;
             stability = calculate_stability_score volatility age nsf trend
         in Inr \<lparr>avg_monthly_revenue = py_round avg_revenue 2,
                 revenue_volatility = volatility,
                 avg_monthly_cash_flow = py_round cash_flow 2,
                 dscr = dscr_v,
                 debt_to_revenue = ratio,
                 annual_revenue = revenue_for_ratio,
                 metrics_net_income = net_inc,
                 stability_score = stability,
                 total_debt = total,
                 revenue_trend = py_round trend 4\<rparr>)))"

section \<open>Risk assessor (\<^verbatim>\<open>agents/risk_assessor.py\<close>)\<close>

record risk_flag =
  severity :: string
  flag :: string
  message :: string

definition check_low_dscr :: "real \<Rightarrow> risk_flag option" where
  "check_low_dscr d =
     (if d < 1.25 then
        Some \<lparr>severity = ''HIGH'', flag = ''LOW_DSCR'',
              message = ''DSCR of '' @ fmt_fixed False 2 d @ '' is below 1.25 minimum threshold''\<rparr>
      else None)"

definition check_unstable_revenue :: "real \<Rightarrow> risk_flag option" where
  "check_unstable_revenue volatility =
     (if 0.40 < volatility then
        Some \<lparr>severity = ''MEDIUM'', flag = ''UNSTABLE_REVENUE'',
              message = ''Revenue volatility of '' @ fmt_percent1 volatility
                        @ '' indicates unstable cash flow''\<rparr>
      else None)"

definition check_cash_flow_issues :: "int \<Rightarrow> risk_flag option" where
  "check_cash_flow_issues nsf =
     (if 3 < nsf then
        Some \<lparr>severity = ''HIGH'', flag = ''CASH_FLOW_ISSUES'',
              message = str_int nsf @ '' NSF fees indicate recurring cash flow problems''\<rparr>
      else None)"

definition check_high_leverage :: "real \<Rightarrow> risk_flag option" where
  "check_high_leverage ratio =
     (if 0.50 < ratio then
        Some \<lparr>severity = ''MEDIUM'', flag = ''HIGH_LEVERAGE'',
              message = ''Debt-to-revenue ratio of '' @ fmt_percent1 ratio
                        @ '' exceeds 50% threshold''\<rparr>
      else None)"

definition check_negative_cash_flow :: "real \<Rightarrow> risk_flag option" where
  "check_negative_cash_flow cash_flow =
     (if cash_flow < 0 then
        Some \<lparr>severity = ''HIGH'', flag = ''NEGATIVE_CASH_FLOW'',
              message = ''Negative average monthly cash flow of $''
                        @ fmt_fixed True 2 cash_flow\<rparr>
      else None)"

definition check_declining_revenue :: "real \<Rightarrow> risk_flag option" where
  "check_declining_revenue trend =
     (if trend < - 0.10 then
        Some \<lparr>severity = ''MEDIUM'', flag = ''DECLINING_REVENUE'',
              message = ''Revenue declining by '' @ fmt_percent1 \<bar>trend\<bar>\<rparr>
      else None)"

definition calculate_risk_level :: "risk_flag list \<Rightarrow> string" where
  "calculate_risk_level fs =
     (if fs = [] then ''LOW''
      else
        let high_count = length (filter (\<lambda>f. severity f = ''HIGH'') fs);
            medium_count = length (filter (\<lambda>f. severity f = ''MEDIUM'') fs)
        in if 0 < high_count then ''HIGH''
           else if 3 \<le> medium_count then ''HIGH''
           else if 1 \<le> medium_count then ''MODERATE''
           else ''LOW'')"

definition detect_positive_signals :: "metrics \<Rightarrow> int \<Rightarrow> string list" where
  "detect_positive_signals m nsf =
     (if 10000 < avg_monthly_cash_flow m then [''Strong cash flow reserves''] else [])
     @ (if 1.75 \<le> dscr m then [''Excellent DSCR'']
        else if 1.5 \<le> dscr m then [''Strong DSCR'']
        else if 1.25 \<le> dscr m then [''Adequate DSCR'']
        else [])
     @ (if revenue_volatility m < 0.20 then [''Low revenue volatility''] else [])
     @ (if 80 \<le> stability_score m then [''High business stability'']
        else if 70 \<le> stability_score m then [''Good business stability'']
        else [])
     @ (if 0.15 < revenue_trend m then [''Strong revenue growth'']
        else if 0 < revenue_trend m then [''Growing revenue'']
        else [])
     @ (if nsf = 0 then [''Clean payment history''] else [])
     @ (if debt_to_revenue m < 0.30 then [''Low financial leverage''] else [])"

record risk_assessment =
  risk_level :: string
  flags :: "risk_flag list"
  positive_signals :: "string list"

text \<open>\<^verbatim>\<open>if flag: flags.append(flag)\<close>: a check's flag joins the list when there is one.\<close>

definition append_flag :: "risk_flag list \<Rightarrow> risk_flag option \<Rightarrow> risk_flag list" where
  "append_flag fs r = (case r of None \<Rightarrow> fs | Some f \<Rightarrow> fs @ [f])"

definition assess :: "metrics \<Rightarrow> extracted_data \<Rightarrow> risk_assessment" where
  "assess m ed =
     (let bank = dict_get empty_bank_data (bank_data ed);
          nsf = dict_get 0 (nsf_fees bank);
          fs0 = [];
          fs1 = append_flag fs0 (check_low_dscr (dscr m));
          fs2 = append_flag fs1 (check_unstable_revenue (revenue_volatility m));
          fs3 = append_flag fs2 (check_cash_flow_issues nsf);
          fs4 = append_flag fs3 (check_high_leverage (debt_to_revenue m));
          fs5 = append_flag fs4 (check_negative_cash_flow (avg_monthly_cash_flow m));
          fs6 = append_flag fs5 (check_declining_revenue (revenue_trend m))
      in \<lparr>risk_level = calculate_risk_level fs6,
          flags = fs6,
          positive_signals = detect_positive_signals m nsf\<rparr>)"

section \<open>Memo generator (\<^verbatim>\<open>agents/memo_generator.py\<close>)\<close>

text \<open>
  The \<^verbatim>\<open>reasons\<close> list of a recommendation is built with a conditional expression
  whose other branch is \<^verbatim>\<open>None\<close>, so its entries are optional strings.
\<close>

record recommendation_rec =
  decision :: string
  reasons :: "string option list"
  conditions :: "string list"

definition determine_recommendation ::
  "string \<Rightarrow> real \<Rightarrow> int \<Rightarrow> risk_flag list \<Rightarrow> recommendation_rec" where
  "determine_recommendation level d stability fs =
     (let high_severity_flags = filter (\<lambda>f. severity f = ''HIGH'') fs
      in if level = ''HIGH'' \<and> 2 \<le> length high_severity_flags then
           \<lparr>decision = ''DECLINE'',
            reasons =
              [Some ''Multiple critical risk factors identified'',
               (if d < 1.0 then
                  Some (''DSCR of '' @ fmt_fixed False 2 d
                        @ '' indicates insufficient debt service capacity'')
                else None),
               Some ''High volatility or cash flow concerns''],
            conditions = []\<rparr>
         else if d < 1.0 then
           \<lparr>decision = ''DECLINE'',
            reasons =
              [Some (''DSCR of '' @ fmt_fixed False 2 d @ '' is below 1.0 minimum threshold''),
               Some ''Insufficient cash flow to service debt''],
            conditions = []\<rparr>
         else if level = ''HIGH'' \<or> level = ''MODERATE'' then
           let c1 = (if d < 1.35 then [''Require personal guarantee from business owner'']
                     else []);
               c2 = c1 @ (if stability < 70 then [''Require quarterly financial reporting'']
                          else []);
               c3 = c2 @ (if list_ex (\<lambda>f. flag f = ''UNSTABLE_REVENUE'') fs
                          then [''Monitor cash flow closely for first 12 months''] else []);
               c4 = c3 @ (if list_ex (\<lambda>f. flag f = ''HIGH_LEVERAGE'') fs
                          then [''Reduce loan amount to 80% of request''] else []);
               c5 = c4 @ (if list_ex (\<lambda>f. flag f = ''CASH_FLOW_ISSUES'') fs
                          then [''Establish cash reserve requirement of 3 months expenses'']
                          else []);
               c6 = (if c5 = [] then [''Standard terms with enhanced monitoring''] else c5)
           in \<lparr>decision = ''APPROVE_WITH_CONDITIONS'', reasons = [], conditions = c6\<rparr>
         else \<lparr>decision = ''APPROVE'', reasons = [], conditions = []\<rparr>)"

definition calculate_underwriting_score :: "string \<Rightarrow> real \<Rightarrow> int \<Rightarrow> real \<Rightarrow> int" where
  "calculate_underwriting_score level d stability volatility =
     (let risk_score =
            (if level = ''LOW'' then 40
             else if level = ''MODERATE'' then 25
             else if level = ''HIGH'' then 10
             else 10);
          dscr_score =
            (if 1.75 \<le> d then 30
             else if 1.50 \<le> d then 25
             else if 1.25 \<le> d then 20
             else if 1.0 \<le> d then 10
             else 0);
          stability_contribution = of_int stability / 100 * 20;
          vol_score = max 0 ((1 - min volatility 1.0) * 10);
          total = risk_score + dscr_score + stability_contribution + vol_score
      in py_int (max 0 (min 100 total)))"

subsection \<open>\<^verbatim>\<open>MemoGeneratorAgent.generate\<close>\<close>

text \<open>
  The memo text comes from the language model or, when the client is missing or its
  call raises, from the fallback template; either way \<^verbatim>\<open>generate\<close> goes on with a
  string. The text is opaque to everything below, so the writer of the memo is a
  parameter: a function of what the prompt and the template are built from.
\<close>

type_synonym memo_writer =
  "business_info \<Rightarrow> metrics \<Rightarrow> risk_assessment \<Rightarrow> recommendation_rec \<Rightarrow> string"

record credit_memo_output =
  out_credit_memo :: string
  out_recommendation :: string
  out_underwriting_score :: int
  out_conditions :: "string list"
  out_reasons :: "string option list"

definition generate ::
  "memo_writer \<Rightarrow> business_info \<Rightarrow> metrics \<Rightarrow> risk_assessment \<Rightarrow> credit_memo_output" where
  "generate writer bi m assessment =
     (let level = risk_level assessment;
          fs = flags assessment;
          d = dscr m;
          stability = stability_score m;
          volatility = revenue_volatility m;
          recommendation = determine_recommendation level d stability fs;
          score = calculate_underwriting_score level d stability volatility;
          memo = writer bi m assessment recommendation
      in \<lparr>out_credit_memo = memo,
          out_recommendation = decision recommendation,
          out_underwriting_score = score,
          out_conditions = conditions recommendation,
          out_reasons = reasons recommendation\<rparr>)"

section \<open>Orchestrator (\<^verbatim>\<open>agents/orchestrator.py\<close>)\<close>

record analysis_output =
  res_business_info :: business_info
  res_financial_metrics :: metrics
  res_risk_assessment :: risk_assessment
  res_credit_memo :: string
  res_recommendation :: string
  res_underwriting_score :: int
  res_conditions :: "string list"
  res_decline_reasons :: "string option list"

text \<open>
  The dictionary \<^verbatim>\<open>analyze_loan_package\<close> returns: the full output with status
  \<^verbatim>\<open>"completed"\<close>, or status \<^verbatim>\<open>"failed"\<close> with the exception and the business info.
\<close>

datatype analysis_result = Completed analysis_output | Failed error business_info

definition status :: "analysis_result \<Rightarrow> string" where
  "status r = (case r of Completed out \<Rightarrow> ''completed'' | Failed e bi \<Rightarrow> ''failed'')"

text \<open>\<^verbatim>\<open>result.get("underwriting_score")\<close> and \<^verbatim>\<open>result.get("error")\<close>.\<close>

definition underwriting_score :: "analysis_result \<Rightarrow> int option" where
  "underwriting_score r =
     (case r of Completed out \<Rightarrow> Some (res_underwriting_score out) | Failed e bi \<Rightarrow> None)"

definition error_of :: "analysis_result \<Rightarrow> error option" where
  "error_of r = (case r of Completed out \<Rightarrow> None | Failed e bi \<Rightarrow> Some e)"

text \<open>The loan request both entry points build from the business info.\<close>

definition loan_request_of :: "business_info \<Rightarrow> loan_request" where
  "loan_request_of bi =
     \<lparr>loan_amount = Some (dict_get 0 (loan_amount bi)),
      annual_interest_rate = Some (dict_get 0.08 (annual_interest_rate bi)),
      term_months = Some (dict_get 60 (term_months bi)),
      business_age_years = Some (dict_get 0 (business_age_years bi))\<rparr>"

definition analyze_loan_package ::
  "memo_writer \<Rightarrow> extracted_data \<Rightarrow> business_info \<Rightarrow> analysis_result" where
  "analyze_loan_package writer ed bi =
     (case analyze ed (loan_request_of bi) of
        Inl e \<Rightarrow> Failed e bi
      | Inr financial_metrics \<Rightarrow>
          let assessment = assess financial_metrics ed;
              memo_output = generate writer bi financial_metrics assessment
          in Completed
               \<lparr>res_business_info = bi,
                res_financial_metrics = financial_metrics,
                res_risk_assessment = assessment,
                res_credit_memo = out_credit_memo memo_output,
                res_recommendation = out_recommendation memo_output,
                res_underwriting_score = out_underwriting_score memo_output,
                res_conditions = out_conditions memo_output,
                res_decline_reasons = out_reasons memo_output\<rparr>)"

text \<open>\<^verbatim>\<open>quick_score\<close> catches every exception of its body and returns 0.\<close>

definition quick_score :: "extracted_data \<Rightarrow> business_info \<Rightarrow> int" where
  "quick_score ed bi =
     (case analyze ed (loan_request_of bi) of
        Inl e \<Rightarrow> 0
      | Inr m \<Rightarrow>
          let assessment = assess m ed
          in calculate_underwriting_score (risk_level assessment) (dscr m)
               (stability_score m) (revenue_volatility m))"

section \<open>The quick-score route (\<^verbatim>\<open>api/routes.py\<close>)\<close>

text \<open>
  The request as the route receives it, after the schema's validation: every field is
  present, the optional tax data apart. Of the bank and tax models only the fields the
  agents read are kept.
\<close>

record analyze_request =
  req_business_name :: string
  req_industry :: string
  req_loan_amount :: real
  req_business_age_years :: int
  req_annual_interest_rate :: real
  req_term_months :: int
  req_monthly_deposits :: "real list"
  req_monthly_withdrawals :: "real list"
  req_nsf_fees :: int
  req_tax_data :: "(real \<times> real) option"
  req_existing_debt :: real

record quick_score_response =
  resp_business_name :: string
  resp_underwriting_score :: int
  resp_status :: string

definition request_extracted_data :: "analyze_request \<Rightarrow> extracted_data" where
  "request_extracted_data req =
     \<lparr>bank_data = Some \<lparr>monthly_deposits = Some (req_monthly_deposits req),
                         monthly_withdrawals = Some (req_monthly_withdrawals req),
                         nsf_fees = Some (req_nsf_fees req)\<rparr>,
      tax_data =
        Some (case req_tax_data req of
                None \<Rightarrow> empty_tax_data
              | Some (gross, net) \<Rightarrow> \<lparr>gross_revenue = Some gross, net_income = Some net\<rparr>),
      existing_debt = Some (req_existing_debt req)\<rparr>"

definition request_business_info :: "analyze_request \<Rightarrow> business_info" where
  "request_business_info req =
     \<lparr>loan_amount = Some (req_loan_amount req),
      annual_interest_rate = Some (req_annual_interest_rate req),
      term_months = Some (req_term_months req),
      business_age_years = Some (req_business_age_years req),
      business_name = Some (req_business_name req),
      industry = Some (req_industry req)\<rparr>"

text \<open>
  The route's own handler turns an exception into an HTTP 500, but nothing in its body
  raises: \<^verbatim>\<open>orchestrator.quick_score\<close> has caught everything already.
\<close>

definition quick_score_loan :: "analyze_request \<Rightarrow> quick_score_response" where
  "quick_score_loan req =
     (let score = quick_score (request_extracted_data req) (request_business_info req)
      in \<lparr>resp_business_name = req_business_name req,
          resp_underwriting_score = score,
          resp_status = ''completed''\<rparr>)"

section \<open>Auxiliary definitions for the statements\<close>

subsection \<open>The specification's wording\<close>





subsection \<open>Flags\<close>

text \<open>What a risk check reports apart from its message: the severity and the flag identifier.\<close>

definition severity_and_flag :: "risk_flag option \<Rightarrow> (string \<times> string) option" where
  "severity_and_flag r = map_option (\<lambda>f. (severity f, flag f)) r"

text \<open>The closed set of flag identifiers, and what it means for a flag to belong to it.\<close>

definition flag_ids :: "string list" where
  "flag_ids = [''LOW_DSCR'', ''UNSTABLE_REVENUE'', ''CASH_FLOW_ISSUES'', ''HIGH_LEVERAGE'',
               ''NEGATIVE_CASH_FLOW'', ''DECLINING_REVENUE'']"

definition known_flag :: "risk_flag \<Rightarrow> bool" where
  "known_flag f = ((severity f = ''HIGH'' \<or> severity f = ''MEDIUM'') \<and> flag f \<in> set flag_ids)"

subsection \<open>Concrete inputs\<close>

text \<open>Metrics with a low DSCR and an unstable revenue, and bank data with one NSF fee.\<close>

definition example_metrics :: metrics where
  "example_metrics =
     \<lparr>avg_monthly_revenue = 20000, revenue_volatility = 0.45, avg_monthly_cash_flow = 900,
      dscr = 0.9, debt_to_revenue = 0.2, annual_revenue = 240000, metrics_net_income = 0,
      stability_score = 60, total_debt = 48000, revenue_trend = 0\<rparr>"

definition example_extracted_data :: extracted_data where
  "example_extracted_data =
     \<lparr>bank_data = Some \<lparr>monthly_deposits = Some [], monthly_withdrawals = Some [],
                         nsf_fees = Some 1\<rparr>,
      tax_data = None, existing_debt = None\<rparr>"

text \<open>The flags the checks emit for a DSCR of 1.10 and four NSF fees.\<close>

definition two_high_flags :: "risk_flag list" where
  "two_high_flags =
     [\<lparr>severity = ''HIGH'', flag = ''LOW_DSCR'',
       message = ''DSCR of 1.10 is below 1.25 minimum threshold''\<rparr>,
      \<lparr>severity = ''HIGH'', flag = ''CASH_FLOW_ISSUES'',
       message = ''4 NSF fees indicate recurring cash flow problems''\<rparr>]"

text \<open>No deposits, no withdrawals, no tax data, no debt.\<close>

definition empty_series_data :: extracted_data where
  "empty_series_data =
     \<lparr>bank_data = Some \<lparr>monthly_deposits = Some [], monthly_withdrawals = Some [],
                         nsf_fees = Some 0\<rparr>,
      tax_data = None, existing_debt = Some 0\<rparr>"


definition faulting_business_info :: business_info where
  "faulting_business_info =
     \<lparr>loan_amount = Some 1000, annual_interest_rate = Some (- 24), term_months = Some 2,
      business_age_years = Some 0, business_name = Some ''Acme'', industry = Some ''Retail''\<rparr>"


text \<open>
  A healthy applicant: steady deposits of 5000 against withdrawals of 3000, an
  interest-free loan of 12000 over a year.
\<close>

definition sound_extracted_data :: extracted_data where
  "sound_extracted_data =
     \<lparr>bank_data = Some \<lparr>monthly_deposits = Some [5000, 5000],
                         monthly_withdrawals = Some [3000, 3000], nsf_fees = Some 0\<rparr>,
      tax_data = None, existing_debt = Some 0\<rparr>"

definition sound_business_info :: business_info where
  "sound_business_info =
     \<lparr>loan_amount = Some 12000, annual_interest_rate = Some 0, term_months = Some 12,
      business_age_years = Some 5, business_name = Some ''Acme'', industry = Some ''Retail''\<rparr>"

text \<open>A memo writer that writes nothing.\<close>

definition blank_writer :: memo_writer where
  "blank_writer bi m assessment recommendation = []"

text \<open>
  A request the schema admits on which the pipeline declines with a DSCR above 1.0:
  deposits of 5000 against withdrawals of 3889 and four NSF fees, a loan of 1000 over
  one month at 12 percent (a payment of 1010, hence a DSCR of 1.10).
\<close>

definition strained_extracted_data :: extracted_data where
  "strained_extracted_data =
     \<lparr>bank_data = Some \<lparr>monthly_deposits = Some [5000, 5000],
                         monthly_withdrawals = Some [3889, 3889], nsf_fees = Some 4\<rparr>,
      tax_data = None, existing_debt = Some 0\<rparr>"

definition strained_business_info :: business_info where
  "strained_business_info =
     \<lparr>loan_amount = Some 1000, annual_interest_rate = Some 0.12, term_months = Some 1,
      business_age_years = Some 5, business_name = Some ''Acme'', industry = Some ''Retail''\<rparr>"

section \<open>Rounding\<close>






lemma py_round_of_int: "py_round (of_int k) nd = of_int k"
proof -
  have "(of_int k :: real) * 10 ^ nd = of_int (k * 10 ^ nd)" by simp
  then have "round_half_even (of_int k * 10 ^ nd) = k * 10 ^ nd"
    unfolding round_half_even_def Let_def by (simp only: floor_of_int) simp
  then show ?thesis by (simp add: py_round_def)
qed

lemma py_round_numeral: "py_round (numeral k) nd = numeral k"
  using py_round_of_int [of "numeral k" nd] by simp

lemma py_round_zero: "py_round 0 nd = 0"
  using py_round_of_int [of 0 nd] by simp

section \<open>Properties of the analyzer's scores\<close>



subsection \<open>The monthly payment\<close>









text \<open>At a rate of -24 over two months the denominator \<open>(1 - 2)\<^sup>2 - 1\<close> is zero.\<close>

lemma monthly_payment_fault: "calculate_monthly_payment 1000 (- 24) 2 = Inl ZeroDivisionError"
  by (simp add: calculate_monthly_payment_def math_pow_def bind_result_def Let_def)

subsection \<open>The revenue volatility\<close>






subsection \<open>The analysis of empty series\<close>




section \<open>Properties of the risk assessor\<close>

text \<open>
  Claim C2. Each of the six risk checks compares strictly with its threshold: at the
  threshold itself (1.25, 0.40, 3, 0.50, 0, -0.10) there is no flag, and a flag is
  produced exactly for the inputs strictly past it, with the documented severity and
  flag identifier.
\<close>

theorem risk_checks_strict:
  "check_low_dscr 1.25 = None
   \<and> severity_and_flag (check_low_dscr d)
       = (if d < 1.25 then Some (''HIGH'', ''LOW_DSCR'') else None)
   \<and> check_unstable_revenue 0.40 = None
   \<and> severity_and_flag (check_unstable_revenue v)
       = (if 0.40 < v then Some (''MEDIUM'', ''UNSTABLE_REVENUE'') else None)
   \<and> check_cash_flow_issues 3 = None
   \<and> severity_and_flag (check_cash_flow_issues n)
       = (if 3 < n then Some (''HIGH'', ''CASH_FLOW_ISSUES'') else None)
   \<and> check_high_leverage 0.50 = None
   \<and> severity_and_flag (check_high_leverage r)
       = (if 0.50 < r then Some (''MEDIUM'', ''HIGH_LEVERAGE'') else None)
   \<and> check_negative_cash_flow 0 = None
   \<and> severity_and_flag (check_negative_cash_flow c)
       = (if c < 0 then Some (''HIGH'', ''NEGATIVE_CASH_FLOW'') else None)
   \<and> check_declining_revenue (- 0.10) = None
   \<and> severity_and_flag (check_declining_revenue t)
       = (if t < - 0.10 then Some (''MEDIUM'', ''DECLINING_REVENUE'') else None)"
  by (simp add: severity_and_flag_def check_low_dscr_def check_unstable_revenue_def
      check_cash_flow_issues_def check_high_leverage_def check_negative_cash_flow_def
      check_declining_revenue_def)

theorem risk_checks_strict_witness:
  "severity_and_flag (check_low_dscr 1.249) = Some (''HIGH'', ''LOW_DSCR'')
   \<and> severity_and_flag (check_unstable_revenue 0.401) = Some (''MEDIUM'', ''UNSTABLE_REVENUE'')
   \<and> severity_and_flag (check_cash_flow_issues 4) = Some (''HIGH'', ''CASH_FLOW_ISSUES'')
   \<and> severity_and_flag (check_high_leverage 0.501) = Some (''MEDIUM'', ''HIGH_LEVERAGE'')
   \<and> severity_and_flag (check_negative_cash_flow (- 0.01)) = Some (''HIGH'', ''NEGATIVE_CASH_FLOW'')
   \<and> severity_and_flag (check_declining_revenue (- 0.101)) = Some (''MEDIUM'', ''DECLINING_REVENUE'')"
  using risk_checks_strict [of "1.249" "0.401" 4 "0.501" "- 0.01" "- 0.101"]
  by simp

lemma known_flag_checks:
  "case_option True known_flag (check_low_dscr d)"
  "case_option True known_flag (check_unstable_revenue v)"
  "case_option True known_flag (check_cash_flow_issues n)"
  "case_option True known_flag (check_high_leverage r)"
  "case_option True known_flag (check_negative_cash_flow c)"
  "case_option True known_flag (check_declining_revenue t)"
  by (simp_all add: known_flag_def flag_ids_def check_low_dscr_def check_unstable_revenue_def
      check_cash_flow_issues_def check_high_leverage_def check_negative_cash_flow_def
      check_declining_revenue_def)

lemma append_flag_known:
  "list_all known_flag fs \<Longrightarrow> case_option True known_flag r
   \<Longrightarrow> list_all known_flag (append_flag fs r)"
  by (cases r) (simp_all add: append_flag_def)

lemma assess_flags_eq:
  "flags (assess m ed) =
    append_flag (append_flag (append_flag (append_flag (append_flag (append_flag []
      (check_low_dscr (dscr m)))
      (check_unstable_revenue (revenue_volatility m)))
      (check_cash_flow_issues (dict_get 0 (nsf_fees (dict_get empty_bank_data (bank_data ed))))))
      (check_high_leverage (debt_to_revenue m)))
      (check_negative_cash_flow (avg_monthly_cash_flow m)))
      (check_declining_revenue (revenue_trend m))"
  by (simp only: assess_def Let_def risk_assessment.select_convs)

lemma assess_flags_known: "list_all known_flag (flags (assess m ed))"
  unfolding assess_flags_eq
  by (intro append_flag_known known_flag_checks) simp

lemma known_flags_not_low:
  assumes "list_all known_flag fs" "fs \<noteq> []"
  shows "0 < length (filter (\<lambda>f. severity f = ''HIGH'') fs)
       \<or> 1 \<le> length (filter (\<lambda>f. severity f = ''MEDIUM'') fs)"
proof -
  from assms obtain f rest where fs: "fs = f # rest" by (cases fs) auto
  with assms have "severity f = ''HIGH'' \<or> severity f = ''MEDIUM''"
    by (simp add: known_flag_def)
  then show ?thesis by (auto simp: fs)
qed

lemma risk_level_low_iff:
  assumes "list_all known_flag fs"
  shows "calculate_risk_level fs = ''LOW'' \<longleftrightarrow> fs = []"
proof (cases "fs = []")
  case True then show ?thesis by (simp add: calculate_risk_level_def)
next
  case False
  from known_flags_not_low [OF assms False] False show ?thesis
    by (auto simp: calculate_risk_level_def Let_def)
qed

text \<open>
  Claim C10. Every flag \<^verbatim>\<open>RiskAssessorAgent.assess\<close> produces has severity
  \<^verbatim>\<open>"HIGH"\<close> or \<^verbatim>\<open>"MEDIUM"\<close> and an identifier of the closed six-element set.
  Hence the risk level of an assessment is \<^verbatim>\<open>"LOW"\<close> exactly when its flag list is
  empty: with a flag in the list one of the two counts of \<^verbatim>\<open>calculate_risk_level\<close>
  is positive, so its last branch is never taken.
\<close>

theorem assess_flags_closed:
  "list_all known_flag (flags (assess m ed))
   \<and> (risk_level (assess m ed) = ''LOW'' \<longleftrightarrow> flags (assess m ed) = [])
   \<and> (flags (assess m ed) = []
      \<or> 0 < length (filter (\<lambda>f. severity f = ''HIGH'') (flags (assess m ed)))
      \<or> 1 \<le> length (filter (\<lambda>f. severity f = ''MEDIUM'') (flags (assess m ed))))"
proof -
  have k: "list_all known_flag (flags (assess m ed))" by (rule assess_flags_known)
  have rl: "risk_level (assess m ed) = calculate_risk_level (flags (assess m ed))"
    by (simp only: assess_def Let_def risk_assessment.select_convs)
  show ?thesis
    using k risk_level_low_iff [OF k] known_flags_not_low [OF k] unfolding rl by blast
qed

theorem assess_flags_closed_witness:
  "list_all known_flag (flags (assess example_metrics example_extracted_data))
   \<and> map flag (flags (assess example_metrics example_extracted_data))
       = [''LOW_DSCR'', ''UNSTABLE_REVENUE'']
   \<and> risk_level (assess example_metrics example_extracted_data) = ''HIGH''"
  using assess_flags_closed [of example_metrics example_extracted_data]
  by (simp add: assess_def Let_def example_metrics_def example_extracted_data_def
      append_flag_def dict_get_def check_low_dscr_def check_unstable_revenue_def
      check_cash_flow_issues_def check_high_leverage_def check_negative_cash_flow_def
      check_declining_revenue_def calculate_risk_level_def)

section \<open>Properties of the recommendation and the underwriting score\<close>




text \<open>
  On the first decline branch everything but the type of the reasons holds: the decision
  is a decline, there are no conditions, the generic reason is present and the
  DSCR-specific message is present exactly when the DSCR is below 1.0. When it is not,
  its place in the list is taken by \<^verbatim>\<open>None\<close>.
\<close>

lemma determine_recommendation_decline_branch:
  assumes "2 \<le> length (filter (\<lambda>f. severity f = ''HIGH'') fs)"
  shows "decision (determine_recommendation ''HIGH'' d s fs) = ''DECLINE''"
    and "conditions (determine_recommendation ''HIGH'' d s fs) = []"
    and "Some ''Multiple critical risk factors identified''
           \<in> set (reasons (determine_recommendation ''HIGH'' d s fs))"
    and "Some (''DSCR of '' @ fmt_fixed False 2 d
               @ '' indicates insufficient debt service capacity'')
           \<in> set (reasons (determine_recommendation ''HIGH'' d s fs)) \<longleftrightarrow> d < 1"
    and "None \<in> set (reasons (determine_recommendation ''HIGH'' d s fs)) \<longleftrightarrow> \<not> d < 1"
  using assms by (simp_all add: determine_recommendation_def)

text \<open>The two HIGH flags of the example are what the checks emit for a DSCR of 1.10 and four NSF fees.\<close>

lemma two_high_flags_from_checks:
  "two_high_flags = append_flag (append_flag [] (check_low_dscr 1.10)) (check_cash_flow_issues 4)"
  by (simp add: two_high_flags_def append_flag_def check_low_dscr_def check_cash_flow_issues_def
      fmt_fixed_def round_half_even_def str_int_def str_nat.simps digit_char_def
      numeral_2_eq_2)

text \<open>
  Claim C3, at a risk level of HIGH with two HIGH flags and a DSCR of 1.10: the decision
  is a decline with no conditions, but the reasons are not a list of strings. The
  second entry is \<^verbatim>\<open>None\<close>, which the response schema's \<^verbatim>\<open>decline_reasons: List[str]\<close>
  does not admit.
\<close>

theorem determine_recommendation_reasons_none_entry:
  "determine_recommendation ''HIGH'' 1.10 60 two_high_flags
     = \<lparr>decision = ''DECLINE'',
        reasons = [Some ''Multiple critical risk factors identified'', None,
                   Some ''High volatility or cash flow concerns''],
        conditions = []\<rparr>"
  by (simp add: determine_recommendation_def two_high_flags_def)

section \<open>Properties of the orchestrator\<close>

lemma analyze_fault:
  "analyze empty_series_data (loan_request_of faulting_business_info) = Inl ZeroDivisionError"
  by (simp add: analyze_def Let_def loan_request_of_def empty_series_data_def
      faulting_business_info_def dict_get_def monthly_payment_fault bind_result_def)

text \<open>
  A fault of the analyzer reaches the caller of \<^verbatim>\<open>analyze_loan_package\<close> as status
  \<^verbatim>\<open>"failed"\<close> with the exception attached, while \<^verbatim>\<open>quick_score\<close> answers 0 and the
  route wraps whatever it answers into status \<^verbatim>\<open>"completed"\<close>.
\<close>

lemma fault_is_swallowed:
  assumes "analyze ed (loan_request_of bi) = Inl e"
  shows "status (analyze_loan_package writer ed bi) = ''failed''"
    and "error_of (analyze_loan_package writer ed bi) = Some e"
    and "quick_score ed bi = 0"
  using assms by (simp_all add: analyze_loan_package_def quick_score_def status_def error_of_def)

lemma quick_score_loan_always_completed: "resp_status (quick_score_loan req) = ''completed''"
  by (simp add: quick_score_loan_def Let_def)

text \<open>
  Claim C5, at a loan of 1000 over 2 months at an annual rate of -24 (the amortization
  denominator is then zero): the full analysis reports the \<^verbatim>\<open>ZeroDivisionError\<close> as a
  failure, and \<^verbatim>\<open>quick_score\<close> turns the same fault into the score 0.
\<close>

theorem quick_score_swallows_fault:
  "analyze_loan_package writer empty_series_data faulting_business_info
     = Failed ZeroDivisionError faulting_business_info
   \<and> quick_score empty_series_data faulting_business_info = 0"
  by (simp add: analyze_loan_package_def quick_score_def analyze_fault)

text \<open>
  Claim C4. Whenever the full pipeline completes on an input, the score
  \<^verbatim>\<open>quick_score\<close> returns on that input is the underwriting score of the full result.
\<close>

theorem quick_score_matches_full_analysis:
  assumes "status (analyze_loan_package writer ed bi) = ''completed''"
  shows "underwriting_score (analyze_loan_package writer ed bi) = Some (quick_score ed bi)"
proof (cases "analyze ed (loan_request_of bi)")
  case (Inl e)
  with assms show ?thesis by (simp add: analyze_loan_package_def status_def)
next
  case (Inr m)
  then show ?thesis
    by (simp add: analyze_loan_package_def quick_score_def underwriting_score_def
        generate_def Let_def)
qed

lemma sound_payment: "calculate_monthly_payment 12000 0 12 = Inr 1000"
  by (simp add: calculate_monthly_payment_def py_round_numeral)

lemma no_debt_payment: "calculate_monthly_payment 0 r n = Inr 0"
  by (simp add: calculate_monthly_payment_def)

lemma sound_revenue: "calculate_avg_monthly_revenue [5000, 5000] = 5000"
  by (simp add: calculate_avg_monthly_revenue_def py_round_numeral)

lemma sound_volatility: "calculate_revenue_volatility [5000, 5000] = 0"
  by (simp add: calculate_revenue_volatility_def np_mean_def np_std_ddof1_def py_round_zero)

lemma sound_ratio: "calculate_debt_to_revenue_ratio 12000 60000 = 1 / 5"
  by (simp add: calculate_debt_to_revenue_ratio_def py_round_def round_half_even_def)

lemma sound_stability: "calculate_stability_score 0 5 0 0 = 85"
  by (simp add: calculate_stability_score_def volatility_score_def age_score_def nsf_score_def
      trend_bonus_def py_int_def)

lemma sound_analyze:
  "analyze sound_extracted_data (loan_request_of sound_business_info) =
     Inr \<lparr>avg_monthly_revenue = 5000, revenue_volatility = 0, avg_monthly_cash_flow = 2000,
          dscr = 2, debt_to_revenue = 1 / 5, annual_revenue = 60000, metrics_net_income = 0,
          stability_score = 85, total_debt = 12000, revenue_trend = 0\<rparr>"
  by (simp add: analyze_def Let_def loan_request_of_def sound_extracted_data_def
      sound_business_info_def dict_get_def bind_result_def empty_tax_data_def
      sound_payment no_debt_payment sound_revenue sound_volatility sound_ratio
      sound_stability compute_revenue_trend_def py_round_numeral py_round_zero)

lemma sound_assess:
  "assess \<lparr>avg_monthly_revenue = 5000, revenue_volatility = 0, avg_monthly_cash_flow = 2000,
          dscr = 2, debt_to_revenue = 1 / 5, annual_revenue = 60000, metrics_net_income = 0,
          stability_score = 85, total_debt = 12000, revenue_trend = 0\<rparr> sound_extracted_data
   = \<lparr>risk_level = ''LOW'', flags = [],
      positive_signals = [''Excellent DSCR'', ''Low revenue volatility'',
        ''High business stability'', ''Clean payment history'', ''Low financial leverage'']\<rparr>"
  by (simp add: Let_def assess_def append_flag_def
        check_low_dscr_def check_unstable_revenue_def check_cash_flow_issues_def
        check_high_leverage_def check_negative_cash_flow_def check_declining_revenue_def
        calculate_risk_level_def detect_positive_signals_def
        sound_extracted_data_def dict_get_def)

lemma sound_score: "calculate_underwriting_score ''LOW'' 2 85 0 = 97"
  by (simp add: calculate_underwriting_score_def py_int_def)

theorem quick_score_matches_full_analysis_witness:
  "status (analyze_loan_package blank_writer sound_extracted_data sound_business_info)
     = ''completed''
   \<and> underwriting_score
       (analyze_loan_package blank_writer sound_extracted_data sound_business_info) = Some 97
   \<and> quick_score sound_extracted_data sound_business_info = 97"
proof -
  have s: "status (analyze_loan_package blank_writer sound_extracted_data sound_business_info)
     = ''completed''"
    unfolding analyze_loan_package_def sound_analyze by (simp add: status_def Let_def)
  have q: "quick_score sound_extracted_data sound_business_info = 97"
    unfolding quick_score_def sound_analyze
    by (simp add: Let_def sound_assess sound_score)
  from quick_score_matches_full_analysis [OF s] s q show ?thesis by simp
qed

text \<open>
  The decline with a \<^verbatim>\<open>None\<close> among its reasons is what the full pipeline returns for
  deposits of 5000, withdrawals of 3889 and four NSF fees, on a loan of 1000 over one
  month at 12 percent.
\<close>

lemma strained_payment: "calculate_monthly_payment 1000 (3 / 25) 1 = Inr 1010"
proof -
  have "math_pow (1 + 3 / 25 / 12) 1 = Inr (101 / 100)"
    by (simp add: math_pow_def)
  then show ?thesis
    using py_round_of_int [of 1010 2]
    by (simp add: calculate_monthly_payment_def bind_result_def Let_def)
qed

lemma strained_dscr: "py_round (11 / 10) 2 = 11 / 10"
  by (simp add: py_round_def round_half_even_def)

lemma strained_ratio: "calculate_debt_to_revenue_ratio 1000 60000 = 1 / 50"
  by (simp add: calculate_debt_to_revenue_ratio_def py_round_def round_half_even_def)

lemma strained_stability: "calculate_stability_score 0 5 4 0 = 65"
  by (simp add: calculate_stability_score_def volatility_score_def age_score_def nsf_score_def
      trend_bonus_def py_int_def)

lemma strained_analyze:
  "analyze strained_extracted_data (loan_request_of strained_business_info) =
     Inr \<lparr>avg_monthly_revenue = 5000, revenue_volatility = 0, avg_monthly_cash_flow = 1111,
          dscr = 11 / 10, debt_to_revenue = 1 / 50, annual_revenue = 60000,
          metrics_net_income = 0, stability_score = 65, total_debt = 1000,
          revenue_trend = 0\<rparr>"
  by (simp add: analyze_def Let_def loan_request_of_def strained_extracted_data_def
      strained_business_info_def dict_get_def bind_result_def empty_tax_data_def
      strained_payment no_debt_payment sound_revenue sound_volatility strained_ratio
      strained_stability strained_dscr compute_revenue_trend_def
      py_round_numeral py_round_zero)

lemma strained_assess:
  "assess \<lparr>avg_monthly_revenue = 5000, revenue_volatility = 0, avg_monthly_cash_flow = 1111,
          dscr = 11 / 10, debt_to_revenue = 1 / 50, annual_revenue = 60000,
          metrics_net_income = 0, stability_score = 65, total_debt = 1000,
          revenue_trend = 0\<rparr> strained_extracted_data
   = \<lparr>risk_level = ''HIGH'', flags = two_high_flags,
      positive_signals = [''Low revenue volatility'', ''Low financial leverage'']\<rparr>"
proof -
  have f: "check_low_dscr (11 / 10) = Some (hd two_high_flags)"
    "check_cash_flow_issues 4 = Some (hd (tl two_high_flags))"
    by (simp_all add: two_high_flags_def check_low_dscr_def check_cash_flow_issues_def
      fmt_fixed_def round_half_even_def str_int_def str_nat.simps digit_char_def
      numeral_2_eq_2)
  show ?thesis
    by (simp add: Let_def assess_def append_flag_def f
        check_unstable_revenue_def check_high_leverage_def check_negative_cash_flow_def
        check_declining_revenue_def calculate_risk_level_def detect_positive_signals_def
        strained_extracted_data_def dict_get_def)
       (simp add: two_high_flags_def)
qed

lemma pipeline_reasons_none_entry:
  "\<exists>out. analyze_loan_package writer strained_extracted_data strained_business_info
           = Completed out
         \<and> res_recommendation out = ''DECLINE''
         \<and> res_decline_reasons out
             = [Some ''Multiple critical risk factors identified'', None,
                Some ''High volatility or cash flow concerns'']"
  unfolding analyze_loan_package_def strained_analyze
  by (simp add: Let_def strained_assess generate_def determine_recommendation_def
      two_high_flags_def)

end
